theory Spec2Isabelle
  imports Complex_Main
begin

section \<open>ButtonExtraBehavior: data model\<close>

text \<open>
  The development embeds \<^verbatim>\<open>widgets/button_extra_behavior.py\<close>: the mixin class
  \<^verbatim>\<open>ButtonExtraBehavior\<close> with its handlers \<^verbatim>\<open>on_scroll_timeout\<close>,
  \<^verbatim>\<open>on_touch_down\<close>, \<^verbatim>\<open>on_touch_up\<close>, \<^verbatim>\<open>send_press\<close> and \<^verbatim>\<open>long_pressed\<close>.

  Numeric properties (\<^verbatim>\<open>long_time\<close>, \<^verbatim>\<open>double_time\<close>, \<^verbatim>\<open>scroll_timeout\<close>) and clock
  times are exact rationals: the rounding of Python floats is not part of the model.
\<close>

subsection \<open>Touches\<close>

text \<open>
  A touch carries the attributes the handlers read (\<^verbatim>\<open>pos\<close>, \<^verbatim>\<open>profile\<close>,
  \<^verbatim>\<open>button\<close>, \<^verbatim>\<open>is_mouse_scrolling\<close>) and the two that \<^verbatim>\<open>send_press\<close> writes:
  \<^verbatim>\<open>ud[self]\<close> and \<^verbatim>\<open>grab_current\<close> (here: whether it is this widget).
  \<^verbatim>\<open>button\<close> is read only when \<^verbatim>\<open>"button" in touch.profile\<close>.
\<close>

record touch =
  uid :: nat
  pos :: "rat \<times> rat"
  profile :: "string list"
  button :: string
  is_mouse_scrolling :: bool
  ud_self :: bool
  grab_current_self :: bool

subsection \<open>The clock\<close>

text \<open>
  \<^verbatim>\<open>Clock.schedule_once(callback, timeout)\<close> returns an event object that the
  widget keeps in \<^verbatim>\<open>_long_clock\<close> or \<^verbatim>\<open>_double_clock\<close>. The widget replaces these
  references in \<^verbatim>\<open>on_scroll_timeout\<close> while the old objects stay scheduled, so events live
  in a store and the widget holds indices into it. An event records the callback it was
  created with, the timeout it was created with, whether it is scheduled
  (\<^verbatim>\<open>is_triggered\<close>) and, when it is, the time from which it is due.
\<close>

datatype callback = LongPressed | SendPress

record clock_event =
  callback :: callback
  timeout :: rat
  is_triggered :: bool
  deadline :: rat

record clock =
  now :: rat
  events :: "clock_event list"

text \<open>\<^verbatim>\<open>Clock.schedule_once\<close>: a new event, scheduled, due \<^verbatim>\<open>timeout\<close> from now.\<close>

definition schedule_once :: "callback \<Rightarrow> rat \<Rightarrow> clock \<Rightarrow> nat \<times> clock" where
  "schedule_once cb tmo c =
     (length (events c),
      c\<lparr>events := events c @
           [\<lparr>callback = cb, timeout = tmo, is_triggered = True, deadline = now c + tmo\<rparr>]\<rparr>)"

text \<open>\<^verbatim>\<open>event.cancel()\<close>: unschedules; safe on an event that is not scheduled.\<close>

definition cancel :: "nat \<Rightarrow> clock \<Rightarrow> clock" where
  "cancel h c =
     (if h < length (events c)
      then c\<lparr>events := (events c)[h := (events c ! h)\<lparr>is_triggered := False\<rparr>]\<rparr>
      else c)"

text \<open>\<^verbatim>\<open>event()\<close>: schedules the event with its own timeout unless it is already scheduled.\<close>

definition trigger :: "nat \<Rightarrow> clock \<Rightarrow> clock" where
  "trigger h c =
     (if h < length (events c) \<and> \<not> is_triggered (events c ! h)
      then c\<lparr>events := (events c)[h := (events c ! h)
                \<lparr>is_triggered := True, deadline := now c + timeout (events c ! h)\<rparr>]\<rparr>
      else c)"

text \<open>\<^verbatim>\<open>event.is_triggered\<close>.\<close>

definition triggered :: "clock \<Rightarrow> nat \<Rightarrow> bool" where
  "triggered c h = (h < length (events c) \<and> is_triggered (events c ! h))"

subsection \<open>The widget and its collaborators\<close>

text \<open>
  What the handlers produce: the events they dispatch (by name) and the calls they make
  to the next class of the mixin (\<^verbatim>\<open>super(ButtonExtraBehavior, self)\<close>).
\<close>

datatype emission =
    Dispatch string
  | SuperTouchDown touch
  | SuperTouchUp touch
  | SuperTriggerAction

text \<open>
  The collaborators of the mixin: the children (each one's answer to a dispatched touch),
  the hit test \<^verbatim>\<open>collide_point\<close>, and the next class of the mixin. The handlers of that
  class receive the touch and the \<^verbatim>\<open>state\<close> attribute and give their return value
  (\<open>None\<close> is Python's \<^verbatim>\<open>None\<close>) and the new \<^verbatim>\<open>state\<close>; \<^verbatim>\<open>trigger_action\<close> maps
  the \<^verbatim>\<open>state\<close> attribute and is absent (\<open>None\<close>) when the class has no
  \<^verbatim>\<open>ButtonBehavior\<close>.
\<close>

record env =
  children_touch_down :: "(touch \<Rightarrow> bool) list"
  children_touch_up :: "(touch \<Rightarrow> bool) list"
  collide_point :: "rat \<times> rat \<Rightarrow> bool"
  super_on_touch_down :: "touch \<Rightarrow> string \<Rightarrow> bool option \<times> string"
  super_on_touch_up :: "touch \<Rightarrow> string \<Rightarrow> bool option \<times> string"
  super_trigger_action :: "(string \<Rightarrow> string) option"

record widget =
  long_time :: rat
  double_time :: rat
  double_click_enabled :: bool
  scroll_timeout :: rat
  long_clock :: nat
  after_long_press :: bool
  double_clock :: nat
  second_click :: bool
  current_touch :: "touch option"
  state :: string
  clock :: clock
  emitted :: "emission list"

datatype error = AttributeError

section \<open>The handlers\<close>

definition dispatch :: "string \<Rightarrow> widget \<Rightarrow> widget" where
  "dispatch name w = w\<lparr>emitted := emitted w @ [Dispatch name]\<rparr>"

text \<open>
  \<^verbatim>\<open>__init__\<close> with the values of \<^verbatim>\<open>long_time\<close>, \<^verbatim>\<open>double_time\<close> and
  \<^verbatim>\<open>double_click_enabled\<close>: both events are created and cancelled at once.
  \<^verbatim>\<open>state\<close> is an attribute of the class the mixin is combined with and starts as
  \<^verbatim>\<open>normal\<close>.
\<close>

definition init :: "rat \<Rightarrow> rat \<Rightarrow> bool \<Rightarrow> clock \<Rightarrow> widget" where
  "init lt dt dce c =
     (let (h1, c1) = schedule_once LongPressed lt c;
          c2 = cancel h1 c1;
          (h2, c3) = schedule_once SendPress dt c2;
          c4 = cancel h2 c3
      in \<lparr>long_time = lt, double_time = dt, double_click_enabled = dce, scroll_timeout = 0,
          long_clock = h1, after_long_press = False,
          double_clock = h2, second_click = False,
          current_touch = None, state = ''normal'', clock = c4, emitted = []\<rparr>)"

definition on_scroll_timeout :: "widget \<Rightarrow> rat \<Rightarrow> widget" where
  "on_scroll_timeout w tmo =
     (let w1 = w\<lparr>long_time := long_time w + tmo * (1 / 1000)\<rparr>;
          (h1, c1) = schedule_once LongPressed (long_time w1) (clock w1);
          w2 = w1\<lparr>long_clock := h1, clock := cancel h1 c1\<rparr>;
          w3 = w2\<lparr>double_time := double_time w2 + tmo * (1 / 1000)\<rparr>;
          (h2, c2) = schedule_once SendPress (double_time w3) (clock w3)
      in w3\<lparr>double_clock := h2, clock := cancel h2 c2\<rparr>)"

text \<open>
  Assigning the \<^verbatim>\<open>scroll_timeout\<close> property: the property stores the value and runs
  the observer \<^verbatim>\<open>on_scroll_timeout\<close> when the value changed.
\<close>

definition set_scroll_timeout :: "widget \<Rightarrow> rat \<Rightarrow> widget" where
  "set_scroll_timeout w tmo =
     (if tmo = scroll_timeout w then w
      else on_scroll_timeout (w\<lparr>scroll_timeout := tmo\<rparr>) tmo)"

text \<open>\<^verbatim>\<open>for child in self.children[:]: if child.dispatch(..., touch): return True\<close>\<close>

primrec children_dispatch :: "(touch \<Rightarrow> bool) list \<Rightarrow> touch \<Rightarrow> bool" where
  "children_dispatch [] t = False"
| "children_dispatch (child # cs) t = (if child t then True else children_dispatch cs t)"

definition super_touch_down :: "env \<Rightarrow> widget \<Rightarrow> touch \<Rightarrow> bool option \<times> widget" where
  "super_touch_down e w t =
     (let (r, s) = super_on_touch_down e t (state w)
      in (r, w\<lparr>state := s, emitted := emitted w @ [SuperTouchDown t]\<rparr>))"

definition super_touch_up :: "env \<Rightarrow> widget \<Rightarrow> touch \<Rightarrow> bool option \<times> widget" where
  "super_touch_up e w t =
     (let (r, s) = super_on_touch_up e t (state w)
      in (r, w\<lparr>state := s, emitted := emitted w @ [SuperTouchUp t]\<rparr>))"

definition on_touch_down :: "env \<Rightarrow> widget \<Rightarrow> touch \<Rightarrow> bool option \<times> widget" where
  "on_touch_down e w t =
     (if children_dispatch (children_touch_down e) t then (Some True, w)
      else if collide_point e (pos t) then
        (let w1 = w\<lparr>current_touch := Some t, after_long_press := False,
                    second_click := False\<rparr>
         in if ''button'' \<in> set (profile t) \<and> button t = ''right''
              then (Some True, dispatch ''on_right_click'' w1)
            else if ''button'' \<in> set (profile t) \<and> button t = ''middle''
              then (Some True, dispatch ''on_middle_click'' w1)
            else if ''button'' \<in> set (profile t) \<and> button t = ''scrollup''
              then (Some True, dispatch ''on_scroll_up'' w1)
            else if ''button'' \<in> set (profile t) \<and> button t = ''scrolldown''
              then (Some True, dispatch ''on_scroll_down'' w1)
            else
              (let w2 = w1\<lparr>clock := trigger (long_clock w1) (clock w1)\<rparr>
               in if triggered (clock w2) (double_clock w2)
                    then (let w3 = w2\<lparr>second_click := True, state := ''down''\<rparr>;
                              w4 = w3\<lparr>clock := cancel (double_clock w3) (clock w3)\<rparr>
                          in (Some True, dispatch ''on_double_click'' w4))
                  else if double_click_enabled w2
                    then (Some True,
                          w2\<lparr>clock := trigger (double_clock w2) (clock w2),
                             state := ''down''\<rparr>)
                  else super_touch_down e w2 t))
      else (None, w))"

definition on_touch_up :: "env \<Rightarrow> widget \<Rightarrow> touch \<Rightarrow> bool option \<times> widget" where
  "on_touch_up e w t =
     (if children_dispatch (children_touch_up e) t then (Some True, w)
      else if collide_point e (pos t) then
        (if is_mouse_scrolling t then (Some True, w)
         else if triggered (clock w) (long_clock w) then
           (let w1 = w\<lparr>clock := cancel (long_clock w) (clock w)\<rparr>
            in if double_click_enabled w1
                 then (Some True,
                       if second_click w1 then w1\<lparr>state := ''normal''\<rparr> else w1)
               else super_touch_up e (w1\<lparr>state := ''normal''\<rparr>) t)
         else if second_click w then (Some True, w\<lparr>state := ''normal''\<rparr>)
         else if after_long_press w then (Some True, w\<lparr>state := ''normal''\<rparr>)
         else super_touch_up e w t)
      else (None, w))"

text \<open>
  \<^verbatim>\<open>send_press\<close>, the callback of \<^verbatim>\<open>_double_clock\<close>. With no recorded touch the
  replay raises (\<^verbatim>\<open>None.ud\<close>); the \<^verbatim>\<open>AttributeError\<close> of a missing
  \<^verbatim>\<open>trigger_action\<close> is caught.
\<close>

definition send_press :: "env \<Rightarrow> widget \<Rightarrow> error + widget" where
  "send_press e w =
     (if triggered (clock w) (long_clock w) then Inr (w\<lparr>state := ''down''\<rparr>)
      else if scroll_timeout w = 0 then
        (case current_touch w of
           None \<Rightarrow> Inl AttributeError
         | Some t \<Rightarrow>
             (let w1 = snd (super_touch_down e w t);
                  t' = t\<lparr>ud_self := True, grab_current_self := True\<rparr>;
                  w2 = w1\<lparr>current_touch := Some t'\<rparr>;
                  w3 = snd (super_touch_up e w2 t')
              in Inr (w3\<lparr>state := ''normal''\<rparr>)))
      else
        (case super_trigger_action e of
           None \<Rightarrow> Inr (w\<lparr>state := ''normal''\<rparr>)
         | Some act \<Rightarrow>
             (let w1 = w\<lparr>state := act (state w),
                         emitted := emitted w @ [SuperTriggerAction]\<rparr>
              in Inr (w1\<lparr>state := ''normal''\<rparr>))))"

text \<open>\<^verbatim>\<open>long_pressed\<close>, the callback of \<^verbatim>\<open>_long_clock\<close>.\<close>

definition long_pressed :: "widget \<Rightarrow> widget" where
  "long_pressed w =
     (let w1 = dispatch ''on_long_press'' (w\<lparr>after_long_press := True\<rparr>)
      in w1\<lparr>clock := cancel (double_clock w1) (clock w1)\<rparr>)"

section \<open>Time and traces\<close>

text \<open>
  The clock runs a scheduled event once its timeout has elapsed (\<open>can_fire\<close>): the
  event is unscheduled, then its callback is called (\<open>fire\<close>). Time passes between the
  calls (\<open>elapse\<close>). A trace is a list of presses, releases, passages of time, timer
  callbacks and assignments to \<^verbatim>\<open>scroll_timeout\<close>; \<open>run\<close> applies them in turn and stops
  at a callback that is not due, at a negative passage of time or at an exception.
\<close>

definition can_fire :: "widget \<Rightarrow> nat \<Rightarrow> bool" where
  "can_fire w h =
     (triggered (clock w) h \<and> deadline (events (clock w) ! h) \<le> now (clock w))"

definition fire :: "env \<Rightarrow> widget \<Rightarrow> nat \<Rightarrow> error + widget" where
  "fire e w h =
     (let w1 = w\<lparr>clock := cancel h (clock w)\<rparr>
      in case callback (events (clock w) ! h) of
           LongPressed \<Rightarrow> Inr (long_pressed w1)
         | SendPress \<Rightarrow> send_press e w1)"

definition elapse :: "rat \<Rightarrow> widget \<Rightarrow> widget" where
  "elapse d w = w\<lparr>clock := (clock w)\<lparr>now := now (clock w) + d\<rparr>\<rparr>"

datatype action =
    Press touch
  | Release touch
  | Elapse rat
  | Fire nat
  | ScrollTimeout rat

datatype fault = Raised error | NotDue | Backwards

fun step :: "env \<Rightarrow> widget \<Rightarrow> action \<Rightarrow> fault + widget" where
  "step e w (Press t) = Inr (snd (on_touch_down e w t))"
| "step e w (Release t) = Inr (snd (on_touch_up e w t))"
| "step e w (Elapse d) = (if d < 0 then Inl Backwards else Inr (elapse d w))"
| "step e w (Fire h) =
     (if can_fire w h
      then (case fire e w h of Inl x \<Rightarrow> Inl (Raised x) | Inr w' \<Rightarrow> Inr w')
      else Inl NotDue)"
| "step e w (ScrollTimeout tmo) = Inr (set_scroll_timeout w tmo)"

fun run :: "env \<Rightarrow> widget \<Rightarrow> action list \<Rightarrow> fault + widget" where
  "run e w [] = Inr w"
| "run e w (a # as) = (case step e w a of Inl x \<Rightarrow> Inl x | Inr w' \<Rightarrow> run e w' as)"

section \<open>Well-formed widgets and sample data\<close>

text \<open>
  What \<^verbatim>\<open>__init__\<close> establishes and every handler keeps: the two references point to
  two different events of the store, created with the callbacks \<^verbatim>\<open>long_pressed\<close> and
  \<^verbatim>\<open>send_press\<close>.
\<close>

definition well_formed :: "widget \<Rightarrow> bool" where
  "well_formed w =
     (long_clock w < length (events (clock w)) \<and>
      double_clock w < length (events (clock w)) \<and>
      long_clock w \<noteq> double_clock w \<and>
      callback (events (clock w) ! long_clock w) = LongPressed \<and>
      callback (events (clock w) ! double_clock w) = SendPress)"

text \<open>Neither event of the widget is scheduled.\<close>

definition idle :: "widget \<Rightarrow> bool" where
  "idle w = (\<not> triggered (clock w) (long_clock w) \<and> \<not> triggered (clock w) (double_clock w))"

text \<open>A press that none of the four button branches of \<^verbatim>\<open>on_touch_down\<close> takes.\<close>

definition primary :: "touch \<Rightarrow> bool" where
  "primary t =
     (\<not> (''button'' \<in> set (profile t) \<and>
         (button t = ''right'' \<or> button t = ''middle'' \<or>
          button t = ''scrollup'' \<or> button t = ''scrolldown'')))"

text \<open>
  Sample collaborators: a surface of 100 by 100 without children over a button
  behaviour that consumes a press and a release and follows them with \<^verbatim>\<open>state\<close>;
  the same surface over a class without \<^verbatim>\<open>trigger_action\<close>.
\<close>

definition button_env :: env where
  "button_env =
     \<lparr>children_touch_down = [], children_touch_up = [],
      collide_point = (\<lambda>(x, y). 0 \<le> x \<and> x \<le> 100 \<and> 0 \<le> y \<and> y \<le> 100),
      super_on_touch_down = (\<lambda>t s. (Some True, ''down'')),
      super_on_touch_up = (\<lambda>t s. (Some True, ''normal'')),
      super_trigger_action = Some (\<lambda>s. ''down'')\<rparr>"

definition bare_env :: env where
  "bare_env =
     \<lparr>children_touch_down = [], children_touch_up = [],
      collide_point = (\<lambda>(x, y). 0 \<le> x \<and> x \<le> 100 \<and> 0 \<le> y \<and> y \<le> 100),
      super_on_touch_down = (\<lambda>t s. (Some False, s)),
      super_on_touch_up = (\<lambda>t s. (Some False, s)),
      super_trigger_action = None\<rparr>"

definition mouse :: "nat \<Rightarrow> string \<Rightarrow> rat \<times> rat \<Rightarrow> touch" where
  "mouse n b p =
     \<lparr>uid = n, pos = p, profile = [''pos'', ''button''], button = b,
      is_mouse_scrolling = (b = ''scrollup'' \<or> b = ''scrolldown''),
      ud_self = False, grab_current_self = False\<rparr>"

definition start_clock :: clock where
  "start_clock = \<lparr>now = 0, events = []\<rparr>"

text \<open>The defaults of the class, and the same with double click detection enabled.\<close>

definition default_widget :: widget where
  "default_widget = init (1 / 4) (1 / 5) False start_clock"

definition double_widget :: widget where
  "double_widget = init (1 / 4) (1 / 5) True start_clock"

text \<open>
  Sample states: a left-button touch on the surface, the default widget after that press,
  the widget with double click detection after that press, and after press and release.
\<close>

definition left_touch :: touch where
  "left_touch = mouse 1 ''left'' (10, 10)"

definition pressed_default :: widget where
  "pressed_default = snd (on_touch_down button_env default_widget left_touch)"

definition pressed_double :: widget where
  "pressed_double = snd (on_touch_down button_env double_widget left_touch)"

definition released_double :: widget where
  "released_double = snd (on_touch_up button_env pressed_double left_touch)"

text \<open>The widget with double click detection inside a scroll view of timeout 55.\<close>

definition scrolled_double :: widget where
  "scrolled_double = set_scroll_timeout double_widget 55"

text \<open>A touch of the mouse wheel on the surface.\<close>

definition wheel_touch :: touch where
  "wheel_touch = mouse 2 ''scrollup'' (10, 10)"

text \<open>No event of the store is scheduled: the clock will call nothing.\<close>

definition quiet :: "clock \<Rightarrow> bool" where
  "quiet c = list_all (\<lambda>ev. \<not> is_triggered ev) (events c)"


text \<open>The event that each of the four button branches of \<^verbatim>\<open>on_touch_down\<close> dispatches.\<close>

definition terminal_event :: "string \<Rightarrow> string" where
  "terminal_event b =
     (if b = ''right'' then ''on_right_click''
      else if b = ''middle'' then ''on_middle_click''
      else if b = ''scrollup'' then ''on_scroll_up''
      else ''on_scroll_down'')"

section \<open>Clock events\<close>

lemma length_events_cancel: "length (events (cancel h c)) = length (events c)"
  by (simp add: cancel_def)

lemma length_events_trigger: "length (events (trigger h c)) = length (events c)"
  by (simp add: trigger_def)

lemma now_cancel: "now (cancel h c) = now c"
  by (simp add: cancel_def)

lemma now_trigger: "now (trigger h c) = now c"
  by (simp add: trigger_def)

lemma triggered_cancel: "triggered (cancel h c) k = (triggered c k \<and> k \<noteq> h)"
  by (auto simp: cancel_def triggered_def nth_list_update)

lemma triggered_trigger:
  "triggered (trigger h c) k = (triggered c k \<or> (k = h \<and> h < length (events c)))"
  by (auto simp: trigger_def triggered_def nth_list_update)

lemma triggered_now: "triggered (c\<lparr>now := x\<rparr>) h = triggered c h"
  by (simp add: triggered_def)

lemma triggered_elapse: "triggered (clock (elapse d w)) h = triggered (clock w) h"
  by (simp add: elapse_def triggered_def)

lemma nth_events_cancel:
  "events (cancel h c) ! k =
     (if k = h \<and> h < length (events c) then (events c ! h)\<lparr>is_triggered := False\<rparr>
      else events c ! k)"
  by (simp add: cancel_def nth_list_update)

lemma nth_events_trigger:
  "events (trigger h c) ! k =
     (if k = h \<and> h < length (events c) \<and> \<not> is_triggered (events c ! h)
      then (events c ! h)\<lparr>is_triggered := True, deadline := now c + timeout (events c ! h)\<rparr>
      else events c ! k)"
  by (simp add: trigger_def nth_list_update)

lemma callback_cancel: "callback (events (cancel h c) ! k) = callback (events c ! k)"
  by (simp add: cancel_def nth_list_update)

lemma callback_trigger: "callback (events (trigger h c) ! k) = callback (events c ! k)"
  by (simp add: trigger_def nth_list_update)

lemma well_formed_clock:
  assumes "well_formed w"
  shows "well_formed (w\<lparr>clock := cancel h (clock w)\<rparr>)"
    and "well_formed (w\<lparr>clock := trigger h (clock w)\<rparr>)"
    and "well_formed (elapse d w)"
  using assms
  by (simp_all add: well_formed_def length_events_cancel length_events_trigger
      callback_cancel callback_trigger elapse_def)

lemmas sample_defs = button_env_def bare_env_def mouse_def left_touch_def wheel_touch_def
  start_clock_def default_widget_def double_widget_def pressed_default_def pressed_double_def
  released_double_def scrolled_double_def set_scroll_timeout_def on_scroll_timeout_def
  init_def schedule_once_def cancel_def trigger_def triggered_def
  on_touch_down_def on_touch_up_def super_touch_down_def super_touch_up_def dispatch_def
  well_formed_def idle_def primary_def Let_def

lemma sample_widgets:
  "well_formed default_widget" "idle default_widget" "well_formed double_widget" "idle double_widget"
  by (simp_all add: well_formed_def idle_def default_widget_def double_widget_def init_def
      schedule_once_def cancel_def start_clock_def triggered_def)

lemmas eval_defs = sample_defs fire_def can_fire_def elapse_def
  long_pressed_def send_press_def

section \<open>The handlers, case by case\<close>

lemma primaryD:
  assumes "primary t"
  shows "\<not> (''button'' \<in> set (profile t) \<and> button t = ''right'')"
    and "\<not> (''button'' \<in> set (profile t) \<and> button t = ''middle'')"
    and "\<not> (''button'' \<in> set (profile t) \<and> button t = ''scrollup'')"
    and "\<not> (''button'' \<in> set (profile t) \<and> button t = ''scrolldown'')"
  using assms unfolding primary_def by blast+

lemma on_touch_down_primary:
  assumes "\<not> children_dispatch (children_touch_down e) t"
    and "collide_point e (pos t)" and "primary t"
  shows "on_touch_down e w t =
     (let w1 = w\<lparr>current_touch := Some t, after_long_press := False, second_click := False\<rparr>;
          w2 = w1\<lparr>clock := trigger (long_clock w1) (clock w1)\<rparr>
      in if triggered (clock w2) (double_clock w2)
           then (let w3 = w2\<lparr>second_click := True, state := ''down''\<rparr>;
                     w4 = w3\<lparr>clock := cancel (double_clock w3) (clock w3)\<rparr>
                 in (Some True, dispatch ''on_double_click'' w4))
         else if double_click_enabled w2
           then (Some True,
                 w2\<lparr>clock := trigger (double_clock w2) (clock w2), state := ''down''\<rparr>)
         else super_touch_down e w2 t)"
  unfolding on_touch_down_def Let_def
  using assms(1,2) primaryD [OF assms(3)] by (simp only: if_True if_False)

lemma press_second:
  assumes "well_formed w" and "triggered (clock w) (double_clock w)"
    and "\<not> children_dispatch (children_touch_down e) t"
    and "collide_point e (pos t)" and "primary t"
  shows "on_touch_down e w t =
           (Some True,
            w\<lparr>current_touch := Some t, after_long_press := False, second_click := True,
              state := ''down'',
              clock := cancel (double_clock w) (trigger (long_clock w) (clock w)),
              emitted := emitted w @ [Dispatch ''on_double_click'']\<rparr>)"
  using assms
  by (simp add: on_touch_down_primary well_formed_def triggered_trigger dispatch_def Let_def)

lemma press_first:
  assumes "well_formed w" and "\<not> triggered (clock w) (double_clock w)" and "double_click_enabled w"
    and "\<not> children_dispatch (children_touch_down e) t"
    and "collide_point e (pos t)" and "primary t"
  shows "on_touch_down e w t =
           (Some True,
            w\<lparr>current_touch := Some t, after_long_press := False, second_click := False,
              clock := trigger (double_clock w) (trigger (long_clock w) (clock w)),
              state := ''down''\<rparr>)"
  using assms
  by (simp add: on_touch_down_primary well_formed_def triggered_trigger Let_def)

lemma press_plain:
  assumes "well_formed w" and "\<not> triggered (clock w) (double_clock w)" and "\<not> double_click_enabled w"
    and "\<not> children_dispatch (children_touch_down e) t"
    and "collide_point e (pos t)" and "primary t"
  shows "on_touch_down e w t =
           super_touch_down e
             (w\<lparr>current_touch := Some t, after_long_press := False, second_click := False,
                clock := trigger (long_clock w) (clock w)\<rparr>) t"
  using assms
  by (simp add: on_touch_down_primary well_formed_def triggered_trigger Let_def)

lemma terminal_press_down:
  assumes "\<not> children_dispatch (children_touch_down e) t"
    and "collide_point e (pos t)"
    and "''button'' \<in> set (profile t)"
    and "button t \<in> {''right'', ''middle'', ''scrollup'', ''scrolldown''}"
  shows "on_touch_down e w t =
           (Some True,
            w\<lparr>current_touch := Some t, after_long_press := False, second_click := False,
              emitted := emitted w @ [Dispatch (terminal_event (button t))]\<rparr>)"
proof -
  consider "button t = ''right''" | "button t = ''middle''" | "button t = ''scrollup''"
    | "button t = ''scrolldown''"
    using assms(4) by blast
  then show ?thesis
    by cases (simp_all add: assms(1-3) on_touch_down_def dispatch_def terminal_event_def)
qed

lemma release_early:
  assumes "triggered (clock w) (long_clock w)" and "double_click_enabled w"
    and "\<not> children_dispatch (children_touch_up e) t"
    and "collide_point e (pos t)" and "\<not> is_mouse_scrolling t"
  shows "on_touch_up e w t =
           (Some True,
            if second_click w
            then w\<lparr>clock := cancel (long_clock w) (clock w), state := ''normal''\<rparr>
            else w\<lparr>clock := cancel (long_clock w) (clock w)\<rparr>)"
  using assms by (simp add: on_touch_up_def Let_def)

lemma release_early_elapsed:
  assumes "triggered (clock w) (long_clock w)" and "double_click_enabled w"
    and "\<not> children_dispatch (children_touch_up e) t"
    and "collide_point e (pos t)" and "\<not> is_mouse_scrolling t"
  shows "on_touch_up e (elapse d w) t =
           (Some True,
            if second_click w
            then (elapse d w)\<lparr>clock := cancel (long_clock w) (clock (elapse d w)),
                   state := ''normal''\<rparr>
            else (elapse d w)\<lparr>clock := cancel (long_clock w) (clock (elapse d w))\<rparr>)"
proof -
  have "triggered (clock (elapse d w)) (long_clock (elapse d w))"
    using assms(1) by (simp add: elapse_def triggered_def)
  moreover have "double_click_enabled (elapse d w)"
    using assms(2) by (simp add: elapse_def)
  ultimately show ?thesis
    using release_early [of "elapse d w" e t] assms(3-5) by (simp add: elapse_def)
qed

lemma release_late:
  assumes "\<not> triggered (clock w) (long_clock w)" and "second_click w \<or> after_long_press w"
    and "\<not> children_dispatch (children_touch_up e) t"
    and "collide_point e (pos t)" and "\<not> is_mouse_scrolling t"
  shows "on_touch_up e w t = (Some True, w\<lparr>state := ''normal''\<rparr>)"
  using assms by (auto simp add: on_touch_up_def Let_def)

lemma on_touch_up_emits:
  "emitted (snd (on_touch_up e w t)) = emitted w \<or>
   emitted (snd (on_touch_up e w t)) = emitted w @ [SuperTouchUp t]"
  by (simp add: on_touch_up_def super_touch_up_def Let_def split: prod.split)

lemma scroll_release_swallowed:
  "\<not> children_dispatch (children_touch_up e) t \<Longrightarrow> collide_point e (pos t) \<Longrightarrow>
   is_mouse_scrolling t \<Longrightarrow> on_touch_up e w t = (Some True, w)"
  by (simp add: on_touch_up_def)

lemma long_pressed_eq:
  "long_pressed w =
     w\<lparr>after_long_press := True, emitted := emitted w @ [Dispatch ''on_long_press''],
       clock := cancel (double_clock w) (clock w)\<rparr>"
  by (simp add: long_pressed_def dispatch_def Let_def)

lemma on_scroll_timeout_times:
  "long_time (on_scroll_timeout w tmo) = long_time w + tmo / 1000 \<and>
   double_time (on_scroll_timeout w tmo) = double_time w + tmo / 1000"
  by (simp add: on_scroll_timeout_def schedule_once_def Let_def)

section \<open>The long-press timer\<close>

text \<open>
  Claim C2. \<^verbatim>\<open>long_pressed\<close>, in any state, sets \<^verbatim>\<open>_after_long_press\<close>, dispatches
  \<^verbatim>\<open>on_long_press\<close> once and nothing else, and leaves \<^verbatim>\<open>_double_clock\<close> unscheduled
  whatever it was before. When the clock runs \<^verbatim>\<open>_long_clock\<close>, the release that follows
  on the surface returns \<^verbatim>\<open>True\<close> and emits nothing: no call reaches the next class of
  the mixin.
\<close>

theorem long_press_timer_fires:
  assumes "well_formed w"
    and "collide_point e (pos t)"
    and "\<not> children_dispatch (children_touch_up e) t"
  shows "(\<forall>v. after_long_press (long_pressed v) \<and>
              emitted (long_pressed v) = emitted v @ [Dispatch ''on_long_press''] \<and>
              \<not> triggered (clock (long_pressed v)) (double_clock (long_pressed v))) \<and>
         (\<exists>w'. fire e w (long_clock w) = Inr w' \<and>
           after_long_press w' \<and>
           emitted w' = emitted w @ [Dispatch ''on_long_press''] \<and>
           \<not> triggered (clock w') (double_clock w') \<and>
           \<not> triggered (clock w') (long_clock w') \<and>
           fst (on_touch_up e w' t) = Some True \<and>
           emitted (snd (on_touch_up e w' t)) = emitted w' \<and>
           (\<not> is_mouse_scrolling t \<longrightarrow> state (snd (on_touch_up e w' t)) = ''normal''))"
  using assms
  by (simp add: fire_def well_formed_def long_pressed_eq triggered_cancel on_touch_up_def)

theorem long_press_timer_fires_witness:
  "well_formed pressed_default \<and> collide_point button_env (pos left_touch) \<and>
   \<not> children_dispatch (children_touch_up button_env) left_touch \<and>
   (\<exists>w'. fire button_env pressed_default (long_clock pressed_default) = Inr w' \<and>
      after_long_press w' \<and>
      emitted w' = emitted pressed_default @ [Dispatch ''on_long_press''] \<and>
      \<not> triggered (clock w') (double_clock w') \<and>
      \<not> triggered (clock w') (long_clock w') \<and>
      fst (on_touch_up button_env w' left_touch) = Some True \<and>
      emitted (snd (on_touch_up button_env w' left_touch)) = emitted w' \<and>
      (\<not> is_mouse_scrolling left_touch \<longrightarrow>
         state (snd (on_touch_up button_env w' left_touch)) = ''normal''))"
proof -
  have h1: "well_formed pressed_default" by (simp add: sample_defs)
  have h2: "collide_point button_env (pos left_touch)" by (simp add: sample_defs)
  have h3: "\<not> children_dispatch (children_touch_up button_env) left_touch"
    by (simp add: sample_defs)
  show ?thesis
    using long_press_timer_fires [OF h1 h2 h3] h1 h2 h3 by simp
qed

section \<open>Right, middle and wheel presses\<close>

text \<open>
  Claim C5. A press on the surface whose button is right, middle, scrollup or scrolldown
  first records the touch as \<^verbatim>\<open>_current_touch\<close> and clears \<^verbatim>\<open>_after_long_press\<close> and
  \<^verbatim>\<open>_second_click\<close>, then returns \<^verbatim>\<open>True\<close> having dispatched its own event and nothing
  else, before any timer is touched: the clock, and with it both timers, is as before.
  No release dispatches an event: a release emits nothing or hands the raw release to the
  next class of the mixin, and a release of the mouse wheel on the surface returns
  \<^verbatim>\<open>True\<close> with the widget unchanged.
\<close>

theorem terminal_press:
  assumes "\<not> children_dispatch (children_touch_down e) t"
    and "collide_point e (pos t)"
    and "''button'' \<in> set (profile t)"
    and "button t \<in> {''right'', ''middle'', ''scrollup'', ''scrolldown''}"
  shows "on_touch_down e w t =
           (Some True,
            w\<lparr>current_touch := Some t, after_long_press := False, second_click := False,
              emitted := emitted w @ [Dispatch (terminal_event (button t))]\<rparr>) \<and>
         clock (snd (on_touch_down e w t)) = clock w \<and>
         (\<forall>w' t'. emitted (snd (on_touch_up e w' t')) = emitted w' \<or>
                  emitted (snd (on_touch_up e w' t')) = emitted w' @ [SuperTouchUp t']) \<and>
         (\<forall>w' t'. \<not> children_dispatch (children_touch_up e) t' \<and> collide_point e (pos t') \<and>
                  is_mouse_scrolling t' \<longrightarrow> on_touch_up e w' t' = (Some True, w'))"
  using terminal_press_down [OF assms] on_touch_up_emits scroll_release_swallowed by simp

theorem terminal_press_witness:
  "\<not> children_dispatch (children_touch_down button_env) wheel_touch \<and>
   collide_point button_env (pos wheel_touch) \<and>
   ''button'' \<in> set (profile wheel_touch) \<and>
   button wheel_touch \<in> {''right'', ''middle'', ''scrollup'', ''scrolldown''} \<and>
   \<not> children_dispatch (children_touch_up button_env) wheel_touch \<and>
   is_mouse_scrolling wheel_touch \<and>
   on_touch_down button_env pressed_double wheel_touch =
     (Some True,
      pressed_double\<lparr>current_touch := Some wheel_touch, after_long_press := False,
        second_click := False,
        emitted := emitted pressed_double @ [Dispatch ''on_scroll_up'']\<rparr>) \<and>
   clock (snd (on_touch_down button_env pressed_double wheel_touch)) = clock pressed_double \<and>
   on_touch_up button_env (snd (on_touch_down button_env pressed_double wheel_touch)) wheel_touch =
     (Some True, snd (on_touch_down button_env pressed_double wheel_touch))"
proof -
  have h1: "\<not> children_dispatch (children_touch_down button_env) wheel_touch"
    by (simp add: sample_defs)
  have h2: "collide_point button_env (pos wheel_touch)" by (simp add: sample_defs)
  have h3: "''button'' \<in> set (profile wheel_touch)" by (simp add: sample_defs)
  have h4: "button wheel_touch \<in> {''right'', ''middle'', ''scrollup'', ''scrolldown''}"
    by (simp add: sample_defs)
  have h5: "\<not> children_dispatch (children_touch_up button_env) wheel_touch"
    by (simp add: sample_defs)
  have h6: "is_mouse_scrolling wheel_touch" by (simp add: sample_defs)
  have ev: "terminal_event (button wheel_touch) = ''on_scroll_up''"
    by (simp add: terminal_event_def sample_defs)
  show ?thesis
    using terminal_press [OF h1 h2 h3 h4, of pressed_double] h1 h2 h3 h4 h5 h6 ev by simp
qed

text \<open>
  The press is not free of the long-press bookkeeping. With the defaults, a left press
  held until \<^verbatim>\<open>_long_clock\<close> has run sets \<^verbatim>\<open>_after_long_press\<close>; a turn of the wheel
  on the surface clears it, and the release of the left button, which would have been
  consumed, is handed to the next class.
\<close>

theorem wheel_press_clears_long_press:
  "map_sum id after_long_press
     (run button_env default_widget
        [Press left_touch, Elapse (1 / 4), Fire (long_clock default_widget)]) = Inr True \<and>
   map_sum id after_long_press
     (run button_env default_widget
        [Press left_touch, Elapse (1 / 4), Fire (long_clock default_widget), Elapse (1 / 20),
         Press wheel_touch]) = Inr False \<and>
   map_sum id emitted
     (run button_env default_widget
        [Press left_touch, Elapse (1 / 4), Fire (long_clock default_widget), Elapse (1 / 20),
         Press wheel_touch, Release wheel_touch, Elapse (1 / 20), Release left_touch]) =
     Inr [SuperTouchDown left_touch, Dispatch ''on_long_press'', Dispatch ''on_scroll_up'',
          SuperTouchUp left_touch] \<and>
   map_sum id emitted
     (run button_env default_widget
        [Press left_touch, Elapse (1 / 4), Fire (long_clock default_widget), Elapse (1 / 10),
         Release left_touch]) =
     Inr [SuperTouchDown left_touch, Dispatch ''on_long_press'']"
  by (simp add: eval_defs)

section \<open>The double-click timer\<close>

text \<open>
  Claim C7. When \<^verbatim>\<open>send_press\<close> resolves the single click (\<^verbatim>\<open>_long_clock\<close> not
  scheduled) with a positive \<^verbatim>\<open>scroll_timeout\<close>, it calls \<^verbatim>\<open>trigger_action\<close> of the next
  class and replays no press or release; when that class has no \<^verbatim>\<open>trigger_action\<close> it
  emits nothing and raises nothing. In both cases \<^verbatim>\<open>state\<close> ends as \<^verbatim>\<open>normal\<close>.
\<close>

theorem send_press_scroll_timeout:
  assumes "0 < scroll_timeout w" and "\<not> triggered (clock w) (long_clock w)"
  shows "(super_trigger_action e = None \<longrightarrow> send_press e w = Inr (w\<lparr>state := ''normal''\<rparr>)) \<and>
         (\<forall>act. super_trigger_action e = Some act \<longrightarrow>
            send_press e w =
              Inr (w\<lparr>emitted := emitted w @ [SuperTriggerAction], state := ''normal''\<rparr>))"
  using assms by (simp add: send_press_def)

theorem send_press_scroll_timeout_witness:
  "0 < scroll_timeout scrolled_double \<and>
   \<not> triggered (clock scrolled_double) (long_clock scrolled_double) \<and>
   super_trigger_action bare_env = None \<and>
   send_press bare_env scrolled_double = Inr (scrolled_double\<lparr>state := ''normal''\<rparr>) \<and>
   super_trigger_action button_env = Some (\<lambda>s. ''down'') \<and>
   send_press button_env scrolled_double =
     Inr (scrolled_double\<lparr>emitted := emitted scrolled_double @ [SuperTriggerAction],
            state := ''normal''\<rparr>)"
proof -
  have h1: "0 < scroll_timeout scrolled_double" by (simp add: sample_defs)
  have h2: "\<not> triggered (clock scrolled_double) (long_clock scrolled_double)"
    by (simp add: sample_defs)
  have h3: "super_trigger_action bare_env = None" by (simp add: sample_defs)
  have h4: "super_trigger_action button_env = Some (\<lambda>s. ''down'')" by (simp add: sample_defs)
  show ?thesis
    using send_press_scroll_timeout [OF h1 h2, of bare_env]
      send_press_scroll_timeout [OF h1 h2, of button_env] h1 h2 h3 h4 by simp
qed

text \<open>
  Claim C8. When the clock runs \<^verbatim>\<open>_double_clock\<close> while \<^verbatim>\<open>_long_clock\<close> is scheduled,
  \<^verbatim>\<open>send_press\<close> only sets \<^verbatim>\<open>state\<close> to \<^verbatim>\<open>down\<close>: nothing is emitted, \<^verbatim>\<open>state\<close> is not
  reset, and afterwards \<^verbatim>\<open>_long_clock\<close> is still scheduled and \<^verbatim>\<open>_double_clock\<close> is not.
\<close>

theorem send_press_while_long_armed:
  assumes "well_formed w" and "triggered (clock w) (long_clock w)"
  shows "send_press e w = Inr (w\<lparr>state := ''down''\<rparr>) \<and>
         fire e w (double_clock w) =
           Inr (w\<lparr>clock := cancel (double_clock w) (clock w), state := ''down''\<rparr>) \<and>
         triggered (cancel (double_clock w) (clock w)) (long_clock w) \<and>
         \<not> triggered (cancel (double_clock w) (clock w)) (double_clock w)"
  using assms by (simp add: send_press_def fire_def well_formed_def triggered_cancel)

theorem send_press_while_long_armed_witness:
  "well_formed pressed_double \<and>
   triggered (clock pressed_double) (long_clock pressed_double) \<and>
   send_press button_env pressed_double = Inr (pressed_double\<lparr>state := ''down''\<rparr>) \<and>
   fire button_env pressed_double (double_clock pressed_double) =
     Inr (pressed_double\<lparr>clock := cancel (double_clock pressed_double) (clock pressed_double),
            state := ''down''\<rparr>)"
proof -
  have h1: "well_formed pressed_double" by (simp add: sample_defs)
  have h2: "triggered (clock pressed_double) (long_clock pressed_double)"
    by (simp add: sample_defs)
  show ?thesis
    using send_press_while_long_armed [OF h1 h2, of button_env] h1 h2 by simp
qed

section \<open>Touches off the surface\<close>

text \<open>
  Claim C9. A touch down or up that no child consumes and that fails \<^verbatim>\<open>collide_point\<close>
  returns \<^verbatim>\<open>None\<close> and leaves the whole widget as it was.
\<close>

theorem miss_leaves_widget:
  assumes "\<not> collide_point e (pos t)"
  shows "(\<not> children_dispatch (children_touch_down e) t \<longrightarrow> on_touch_down e w t = (None, w)) \<and>
         (\<not> children_dispatch (children_touch_up e) t \<longrightarrow> on_touch_up e w t = (None, w))"
  using assms by (simp add: on_touch_down_def on_touch_up_def)

theorem miss_leaves_widget_witness:
  "\<not> collide_point button_env (pos (mouse 1 ''left'' (150, 10))) \<and>
   \<not> children_dispatch (children_touch_down button_env) (mouse 1 ''left'' (150, 10)) \<and>
   \<not> children_dispatch (children_touch_up button_env) (mouse 1 ''left'' (150, 10)) \<and>
   on_touch_down button_env pressed_double (mouse 1 ''left'' (150, 10)) =
     (None, pressed_double) \<and>
   on_touch_up button_env pressed_double (mouse 1 ''left'' (150, 10)) = (None, pressed_double)"
proof -
  have h1: "\<not> collide_point button_env (pos (mouse 1 ''left'' (150, 10)))"
    by (simp add: button_env_def mouse_def)
  have h2: "\<not> children_dispatch (children_touch_down button_env) (mouse 1 ''left'' (150, 10))"
    by (simp add: button_env_def)
  have h3: "\<not> children_dispatch (children_touch_up button_env) (mouse 1 ''left'' (150, 10))"
    by (simp add: button_env_def)
  show ?thesis
    using miss_leaves_widget [OF h1, of pressed_double] h1 h2 h3 by simp
qed

section \<open>Changing the scroll timeout\<close>

text \<open>
  Claim C10. Each run of \<^verbatim>\<open>on_scroll_timeout\<close> adds its timeout times 0.001 to
  \<^verbatim>\<open>long_time\<close> and \<^verbatim>\<open>double_time\<close>: after the values \<open>tmos\<close> in turn, both are the
  original values plus the sum of \<open>tmos\<close> over 1000, and a change from \<open>t1\<close> to \<open>t2\<close>
  keeps the share of \<open>t1\<close>.
\<close>

theorem scroll_timeout_accumulates:
  "long_time (foldl on_scroll_timeout w tmos) = long_time w + sum_list tmos / 1000 \<and>
   double_time (foldl on_scroll_timeout w tmos) = double_time w + sum_list tmos / 1000 \<and>
   long_time (on_scroll_timeout (on_scroll_timeout w t1) t2) =
     long_time w + t1 / 1000 + t2 / 1000 \<and>
   double_time (on_scroll_timeout (on_scroll_timeout w t1) t2) =
     double_time w + t1 / 1000 + t2 / 1000"
proof -
  have "long_time (foldl on_scroll_timeout v tmos) = long_time v + sum_list tmos / 1000 \<and>
        double_time (foldl on_scroll_timeout v tmos) = double_time v + sum_list tmos / 1000"
    for v
    by (induction tmos arbitrary: v) (simp_all add: on_scroll_timeout_times add_divide_distrib)
  then show ?thesis
    by (simp add: on_scroll_timeout_times)
qed

text \<open>
  Claim C6. \<^verbatim>\<open>on_scroll_timeout\<close> with timeout \<open>tmo\<close> adds \<open>tmo / 1000\<close> to
  \<^verbatim>\<open>long_time\<close> and to \<^verbatim>\<open>double_time\<close> and points \<^verbatim>\<open>_long_clock\<close> and \<^verbatim>\<open>_double_clock\<close>
  to two new events, created with the new durations and not scheduled. Every event that
  existed before is untouched: it is due exactly when it was due. An event armed after
  the change, at any later time, is due the new duration after that time.
\<close>

theorem scroll_timeout_new_timers:
  "let w' = on_scroll_timeout w tmo; n = length (events (clock w)) in
     long_time w' = long_time w + tmo / 1000 \<and>
     double_time w' = double_time w + tmo / 1000 \<and>
     long_clock w' = n \<and> double_clock w' = Suc n \<and>
     now (clock w') = now (clock w) \<and>
     events (clock w') = events (clock w) @
       [\<lparr>callback = LongPressed, timeout = long_time w', is_triggered = False,
         deadline = now (clock w) + long_time w'\<rparr>,
        \<lparr>callback = SendPress, timeout = double_time w', is_triggered = False,
         deadline = now (clock w) + double_time w'\<rparr>] \<and>
     (\<forall>h. h < n \<longrightarrow>
        events (clock w') ! h = events (clock w) ! h \<and>
        (\<forall>d. can_fire (elapse d w') h = can_fire (elapse d w) h)) \<and>
     (\<forall>d. deadline (events (trigger (long_clock w') (clock (elapse d w'))) ! long_clock w') =
            now (clock w) + d + (long_time w + tmo / 1000)) \<and>
     (\<forall>d. deadline (events (trigger (double_clock w') (clock (elapse d w'))) ! double_clock w') =
            now (clock w) + d + (double_time w + tmo / 1000))"
  by (simp add: on_scroll_timeout_def schedule_once_def cancel_def trigger_def can_fire_def
      elapse_def triggered_def nth_append Let_def)

theorem scroll_timeout_new_timers_witness:
  "0 < length (events (clock pressed_double)) \<and>
   events (clock (on_scroll_timeout pressed_double 55)) ! 0 = events (clock pressed_double) ! 0 \<and>
   can_fire (elapse (1 / 4) (on_scroll_timeout pressed_double 55)) 0 =
     can_fire (elapse (1 / 4) pressed_double) 0 \<and>
   long_time (on_scroll_timeout pressed_double 55) = long_time pressed_double + 55 / 1000"
proof -
  have h: "0 < length (events (clock pressed_double))" by (simp add: sample_defs)
  show ?thesis
    using scroll_timeout_new_timers [of pressed_double 55] h by (simp add: Let_def nth_append)
qed

section \<open>The deferred single click\<close>

text \<open>
  The release comes before either timer has run. Double click detection enabled,
  \<^verbatim>\<open>scroll_timeout\<close> zero, both timers idle and \<^verbatim>\<open>_double_clock\<close> created with
  \<^verbatim>\<open>double_time\<close>. A primary press on the surface and its release \<open>d1\<close> later are both
  consumed and emit nothing; the release unschedules \<^verbatim>\<open>_long_clock\<close>. \<^verbatim>\<open>_double_clock\<close>
  can run \<open>d\<close> after the release exactly when \<open>double_time \<le> d1 + d\<close>, never earlier;
  when it runs, the recorded touch is replayed to the next class as one press followed by
  one release, \<^verbatim>\<open>state\<close> is \<^verbatim>\<open>normal\<close> and no timer is left scheduled.
\<close>

theorem deferred_single_click:
  assumes "well_formed w" and "idle w" and "double_click_enabled w" and "scroll_timeout w = 0"
    and "timeout (events (clock w) ! double_clock w) = double_time w"
    and "\<not> children_dispatch (children_touch_down e) t"
    and "collide_point e (pos t)" and "primary t"
    and "\<not> children_dispatch (children_touch_up e) t'"
    and "collide_point e (pos t')" and "\<not> is_mouse_scrolling t'"
  shows "\<exists>w1 w2. on_touch_down e w t = (Some True, w1) \<and>
           on_touch_up e (elapse d1 w1) t' = (Some True, w2) \<and>
           emitted w2 = emitted w \<and>
           \<not> triggered (clock w2) (long_clock w2) \<and>
           (\<forall>d. can_fire (elapse d w2) (double_clock w2) = (double_time w \<le> d1 + d)) \<and>
           (\<forall>d. \<exists>w3. fire e (elapse d w2) (double_clock w2) = Inr w3 \<and>
              emitted w3 = emitted w @
                [SuperTouchDown t,
                 SuperTouchUp (t\<lparr>ud_self := True, grab_current_self := True\<rparr>)] \<and>
              state w3 = ''normal'' \<and> idle w3)"
proof -
  define w1 where "w1 = w\<lparr>current_touch := Some t, after_long_press := False,
      second_click := False,
      clock := trigger (double_clock w) (trigger (long_clock w) (clock w)), state := ''down''\<rparr>"
  define w2 where "w2 = (elapse d1 w1)\<lparr>clock := cancel (long_clock w1) (clock (elapse d1 w1))\<rparr>"
  have nd: "\<not> triggered (clock w) (double_clock w)"
    using assms(2) by (simp add: idle_def)
  have down: "on_touch_down e w t = (Some True, w1)"
    unfolding w1_def using press_first [OF assms(1) nd assms(3) assms(6-8)] .
  have "triggered (clock w1) (long_clock w1)"
    using assms(1) by (simp add: w1_def triggered_trigger length_events_trigger well_formed_def)
  moreover have "double_click_enabled w1" "\<not> second_click w1"
    using assms(3) by (simp_all add: w1_def)
  ultimately have up: "on_touch_up e (elapse d1 w1) t' = (Some True, w2)"
    unfolding w2_def using release_early_elapsed [of w1 e t' d1] assms(9-11) by simp
  have em: "emitted w2 = emitted w"
    by (simp add: w2_def w1_def elapse_def)
  have long: "\<not> triggered (clock w2) (long_clock w2)"
    by (simp add: w2_def w1_def elapse_def triggered_cancel)
  have due: "can_fire (elapse d w2) (double_clock w2) = (double_time w \<le> d1 + d)" for d
    using assms(1,5) nd
    by (auto simp add: w2_def w1_def elapse_def can_fire_def well_formed_def triggered_def
        cancel_def trigger_def nth_list_update)
  have fired: "\<exists>w3. fire e (elapse d w2) (double_clock w2) = Inr w3 \<and>
              emitted w3 = emitted w @
                [SuperTouchDown t,
                 SuperTouchUp (t\<lparr>ud_self := True, grab_current_self := True\<rparr>)] \<and>
              state w3 = ''normal'' \<and> idle w3" for d
    using assms(1,4) nd
    by (simp add: w2_def w1_def elapse_def fire_def send_press_def well_formed_def
        triggered_cancel triggered_trigger nth_events_cancel nth_events_trigger
        length_events_trigger length_events_cancel triggered_now
        super_touch_down_def super_touch_up_def idle_def Let_def split: prod.split)
  show ?thesis
    using down up em long due fired by blast
qed

theorem deferred_single_click_example:
  "well_formed double_widget \<and> idle double_widget \<and> double_click_enabled double_widget \<and>
   scroll_timeout double_widget = 0 \<and>
   timeout (events (clock double_widget) ! double_clock double_widget) =
     double_time double_widget \<and>
   \<not> children_dispatch (children_touch_down button_env) left_touch \<and>
   collide_point button_env (pos left_touch) \<and> primary left_touch \<and>
   \<not> children_dispatch (children_touch_up button_env) left_touch \<and>
   \<not> is_mouse_scrolling left_touch \<and>
   (\<exists>w1 w2. on_touch_down button_env double_widget left_touch = (Some True, w1) \<and>
      on_touch_up button_env (elapse (1 / 10) w1) left_touch = (Some True, w2) \<and>
      emitted w2 = emitted double_widget \<and>
      \<not> triggered (clock w2) (long_clock w2) \<and>
      (\<forall>d. can_fire (elapse d w2) (double_clock w2) = (double_time double_widget \<le> 1 / 10 + d)) \<and>
      (\<forall>d. \<exists>w3. fire button_env (elapse d w2) (double_clock w2) = Inr w3 \<and>
         emitted w3 = emitted double_widget @
           [SuperTouchDown left_touch,
            SuperTouchUp (left_touch\<lparr>ud_self := True, grab_current_self := True\<rparr>)] \<and>
         state w3 = ''normal'' \<and> idle w3))"
proof -
  have h1: "well_formed double_widget" and h2: "idle double_widget"
    and h3: "double_click_enabled double_widget" and h4: "scroll_timeout double_widget = 0"
    and h5: "timeout (events (clock double_widget) ! double_clock double_widget) =
      double_time double_widget"
    by (simp_all add: sample_defs)
  have h6: "\<not> children_dispatch (children_touch_down button_env) left_touch"
    and h7: "collide_point button_env (pos left_touch)" and h8: "primary left_touch"
    and h9: "\<not> children_dispatch (children_touch_up button_env) left_touch"
    and h10: "\<not> is_mouse_scrolling left_touch"
    by (simp_all add: sample_defs)
  show ?thesis
    using deferred_single_click [OF h1 h2 h3 h4 h5 h6 h7 h8 h9 h7 h10, of "1 / 10"]
      h1 h2 h3 h4 h5 h6 h7 h8 h9 h10 by simp
qed

section \<open>Invariance\<close>

text \<open>
  \<^verbatim>\<open>__init__\<close> and \<^verbatim>\<open>on_scroll_timeout\<close> leave the widget well formed, with both timers
  idle and created with the current durations; the handlers keep it well formed.
\<close>

lemma init_well_formed:
  "well_formed (init lt dt dce c) \<and> idle (init lt dt dce c) \<and>
   timeout (events (clock (init lt dt dce c)) ! long_clock (init lt dt dce c)) = lt \<and>
   timeout (events (clock (init lt dt dce c)) ! double_clock (init lt dt dce c)) = dt"
  by (simp add: init_def schedule_once_def cancel_def well_formed_def idle_def triggered_def
      nth_append Let_def)

lemma on_scroll_timeout_well_formed:
  "well_formed (on_scroll_timeout w tmo) \<and>
   \<not> triggered (clock (on_scroll_timeout w tmo)) (long_clock (on_scroll_timeout w tmo)) \<and>
   \<not> triggered (clock (on_scroll_timeout w tmo)) (double_clock (on_scroll_timeout w tmo)) \<and>
   timeout (events (clock (on_scroll_timeout w tmo)) ! long_clock (on_scroll_timeout w tmo)) =
     long_time (on_scroll_timeout w tmo) \<and>
   timeout (events (clock (on_scroll_timeout w tmo)) ! double_clock (on_scroll_timeout w tmo)) =
     double_time (on_scroll_timeout w tmo)"
  by (simp add: on_scroll_timeout_def schedule_once_def cancel_def well_formed_def
      triggered_def nth_append Let_def)

lemma on_touch_down_well_formed:
  "well_formed w \<Longrightarrow> well_formed (snd (on_touch_down e w t))"
  by (simp add: on_touch_down_def super_touch_down_def dispatch_def well_formed_def
      length_events_cancel length_events_trigger callback_cancel callback_trigger Let_def
      split: prod.split)

lemma on_touch_up_well_formed:
  "well_formed w \<Longrightarrow> well_formed (snd (on_touch_up e w t))"
  by (simp add: on_touch_up_def super_touch_up_def well_formed_def
      length_events_cancel callback_cancel Let_def split: prod.split)

lemma fire_well_formed:
  "well_formed w \<Longrightarrow> fire e w h = Inr w' \<Longrightarrow> well_formed w'"
  by (auto simp add: fire_def long_pressed_eq send_press_def super_touch_up_def
      super_touch_down_def well_formed_def
      length_events_cancel callback_cancel Let_def split: prod.splits callback.splits if_splits option.splits)

lemma step_well_formed:
  assumes "well_formed w" and "step e w a = Inr w'"
  shows "well_formed w'"
proof (cases a)
  case (Press t)
  then show ?thesis using assms on_touch_down_well_formed by auto
next
  case (Release t)
  then show ?thesis using assms on_touch_up_well_formed by auto
next
  case (Elapse d)
  then show ?thesis using assms well_formed_clock(3) by (auto split: if_splits)
next
  case (Fire h)
  then show ?thesis
    using assms fire_well_formed [of w e h] by (auto split: if_splits sum.splits)
next
  case (ScrollTimeout tmo)
  then show ?thesis
    using assms on_scroll_timeout_well_formed by (auto simp: set_scroll_timeout_def)
qed

lemma run_well_formed:
  "well_formed w \<Longrightarrow> run e w as = Inr w' \<Longrightarrow> well_formed w'"
proof (induction as arbitrary: w)
  case Nil
  then show ?case by simp
next
  case (Cons a as)
  then show ?case
    by (auto split: sum.splits dest: step_well_formed)
qed

section \<open>Episodes\<close>

text \<open>
  An episode is a run of presses, releases and timer callbacks with the time that passes
  between them. The lemmas below follow \<open>run\<close> through each shape of episode from a
  well-formed widget with idle timers.
\<close>

lemmas track = well_formed_def length_events_cancel length_events_trigger
      callback_cancel callback_trigger elapse_def now_cancel now_trigger
      triggered_cancel triggered_trigger triggered_now

lemmas walk = press_first press_second press_plain release_early release_late
  well_formed_clock track fire_def can_fire_def long_pressed_eq send_press_def
  nth_events_cancel nth_events_trigger super_touch_down_def super_touch_up_def

lemma double_click_pair:
  assumes "well_formed w" and "\<not> triggered (clock w) (double_clock w)"
    and "double_click_enabled w"
    and "\<not> children_dispatch (children_touch_down e) t"
    and "collide_point e (pos t)" and "primary t"
    and "\<not> children_dispatch (children_touch_up e) t'"
    and "collide_point e (pos t')" and "\<not> is_mouse_scrolling t'"
    and "0 \<le> d1" "0 \<le> d2" "0 \<le> d3"
  shows "map_sum id emitted
           (run e w [Press t, Elapse d1, Release t', Elapse d2, Press t, Elapse d3, Release t']) =
         Inr (emitted w @ [Dispatch ''on_double_click''])"
  using assms by (simp add: walk)

lemma quiet_iff: "quiet c = (\<forall>h. \<not> triggered c h)"
  by (auto simp: quiet_def triggered_def list_all_length)

lemma quiet_idle: "quiet (clock w) \<Longrightarrow> idle w"
  by (simp add: quiet_iff idle_def)

lemma quiet_never_fires: "quiet (clock w) \<Longrightarrow> \<not> can_fire (elapse d w) h"
  by (simp add: quiet_iff can_fire_def triggered_elapse)










lemma undecided_hold_released:
  assumes "well_formed w" and "idle w" and "double_click_enabled w"
    and "timeout (events (clock w) ! double_clock w) = double_time w"
    and "\<not> children_dispatch (children_touch_down e) t"
    and "collide_point e (pos t)" and "primary t"
    and "\<not> children_dispatch (children_touch_up e) t'"
    and "collide_point e (pos t')" and "\<not> is_mouse_scrolling t'"
    and "double_time w \<le> d1" "0 \<le> d1" "0 \<le> d2"
  shows "\<exists>w'. run e w [Press t, Elapse d1, Fire (double_clock w), Elapse d2, Release t'] = Inr w' \<and>
           emitted w' = emitted w \<and> idle w' \<and> state w' = ''down''"
  using assms by (simp add: walk idle_def triggered_def Let_def)

section \<open>The second press of a double click\<close>

text \<open>
  Claim C3. A primary press on the surface while \<^verbatim>\<open>_double_clock\<close> is scheduled returns
  \<^verbatim>\<open>True\<close>, dispatches \<^verbatim>\<open>on_double_click\<close> in that very call and nothing else, sets
  \<^verbatim>\<open>state\<close> to \<^verbatim>\<open>down\<close> and unschedules \<^verbatim>\<open>_double_clock\<close>, which therefore can never
  run \<^verbatim>\<open>send_press\<close> for this press; with detection enabled the release on the surface
  is consumed and emits nothing. For the whole pair, press, release, press, release from
  a widget whose \<^verbatim>\<open>_double_clock\<close> is idle emits \<^verbatim>\<open>on_double_click\<close> and no press or
  release reaches the next class.
\<close>

theorem double_click_second_press:
  assumes "well_formed w" and "triggered (clock w) (double_clock w)"
    and "double_click_enabled w"
    and "\<not> children_dispatch (children_touch_down e) t"
    and "collide_point e (pos t)" and "primary t"
    and "\<not> children_dispatch (children_touch_up e) t'"
    and "collide_point e (pos t')"
  shows "(\<exists>w'. on_touch_down e w t = (Some True, w') \<and>
           emitted w' = emitted w @ [Dispatch ''on_double_click''] \<and>
           state w' = ''down'' \<and> second_click w' \<and>
           \<not> triggered (clock w') (double_clock w') \<and>
           (\<forall>d. \<not> can_fire (elapse d w') (double_clock w')) \<and>
           (\<forall>d. fst (on_touch_up e (elapse d w') t') = Some True \<and>
                emitted (snd (on_touch_up e (elapse d w') t')) = emitted w')) \<and>
         (\<forall>w0 d1 d2 d3.
            well_formed w0 \<and> \<not> triggered (clock w0) (double_clock w0) \<and>
            double_click_enabled w0 \<and> \<not> is_mouse_scrolling t' \<and>
            0 \<le> d1 \<and> 0 \<le> d2 \<and> 0 \<le> d3 \<longrightarrow>
            map_sum id emitted
              (run e w0 [Press t, Elapse d1, Release t', Elapse d2, Press t, Elapse d3,
                         Release t']) =
            Inr (emitted w0 @ [Dispatch ''on_double_click'']))"
proof -
  define w' where "w' = w\<lparr>current_touch := Some t, after_long_press := False,
      second_click := True, state := ''down'',
      clock := cancel (double_clock w) (trigger (long_clock w) (clock w)),
      emitted := emitted w @ [Dispatch ''on_double_click'']\<rparr>"
  have down: "on_touch_down e w t = (Some True, w')"
    unfolding w'_def using press_second [OF assms(1,2,4-6)] .
  have facts: "emitted w' = emitted w @ [Dispatch ''on_double_click'']" "state w' = ''down''"
    "second_click w'" "\<not> triggered (clock w') (double_clock w')"
    by (simp_all add: w'_def triggered_cancel)
  have quiet: "\<not> can_fire (elapse d w') (double_clock w')" for d
    by (simp add: w'_def can_fire_def elapse_def triggered_cancel triggered_now)
  have long: "triggered (clock (elapse d w')) (long_clock (elapse d w'))" for d
    using assms(1)
    by (simp add: w'_def elapse_def well_formed_def triggered_cancel triggered_trigger
        triggered_now)
  have up: "fst (on_touch_up e (elapse d w') t') = Some True \<and>
            emitted (snd (on_touch_up e (elapse d w') t')) = emitted w'" for d
  proof (cases "is_mouse_scrolling t'")
    case True
    then show ?thesis
      using scroll_release_swallowed [OF assms(7,8)] by (simp add: elapse_def)
  next
    case False
    have "double_click_enabled (elapse d w')"
      using assms(3) by (simp add: w'_def elapse_def)
    then show ?thesis
      using release_early [OF long _ assms(7,8) False] by (simp add: elapse_def)
  qed
  show ?thesis
    using down facts quiet up double_click_pair [OF _ _ _ assms(4-8)] by simp
qed

theorem double_click_second_press_witness:
  "well_formed released_double \<and>
   triggered (clock released_double) (double_clock released_double) \<and>
   double_click_enabled released_double \<and>
   \<not> children_dispatch (children_touch_down button_env) left_touch \<and>
   collide_point button_env (pos left_touch) \<and> primary left_touch \<and>
   \<not> children_dispatch (children_touch_up button_env) left_touch \<and>
   (\<exists>w'. on_touch_down button_env released_double left_touch = (Some True, w') \<and>
      emitted w' = emitted released_double @ [Dispatch ''on_double_click''] \<and>
      state w' = ''down'' \<and> second_click w' \<and>
      \<not> triggered (clock w') (double_clock w') \<and>
      (\<forall>d. \<not> can_fire (elapse d w') (double_clock w')) \<and>
      (\<forall>d. fst (on_touch_up button_env (elapse d w') left_touch) = Some True \<and>
           emitted (snd (on_touch_up button_env (elapse d w') left_touch)) = emitted w')) \<and>
   well_formed double_widget \<and>
   \<not> triggered (clock double_widget) (double_clock double_widget) \<and>
   double_click_enabled double_widget \<and> \<not> is_mouse_scrolling left_touch \<and>
   map_sum id emitted
     (run button_env double_widget
        [Press left_touch, Elapse (1 / 20), Release left_touch, Elapse (1 / 20),
         Press left_touch, Elapse (1 / 20), Release left_touch]) =
   Inr (emitted double_widget @ [Dispatch ''on_double_click''])"
proof -
  have h1: "well_formed released_double"
    and h2: "triggered (clock released_double) (double_clock released_double)"
    and h3: "double_click_enabled released_double"
    by (simp_all add: sample_defs)
  have h4: "\<not> children_dispatch (children_touch_down button_env) left_touch"
    and h5: "collide_point button_env (pos left_touch)" and h6: "primary left_touch"
    and h7: "\<not> children_dispatch (children_touch_up button_env) left_touch"
    and h8: "\<not> is_mouse_scrolling left_touch"
    by (simp_all add: sample_defs)
  have g1: "well_formed double_widget"
    and g2: "\<not> triggered (clock double_widget) (double_clock double_widget)"
    and g3: "double_click_enabled double_widget"
    by (simp_all add: sample_defs)
  have g4: "(0::rat) \<le> 1 / 20" by simp
  show ?thesis
    using double_click_second_press [OF h1 h2 h3 h4 h5 h6 h7 h5]
      h1 h2 h3 h4 h5 h6 h7 h8 g1 g2 g3 g4 by simp
qed

section \<open>One classification per episode\<close>




section \<open>A click held between the two timeouts\<close>

text \<open>
  Claim C4 says that with double click detection, \<^verbatim>\<open>scroll_timeout\<close> zero and no second
  press, a release before the long-press threshold is followed by exactly one single click
  about \<^verbatim>\<open>double_time\<close> after the press. With the defaults (\<^verbatim>\<open>double_time\<close> 0.2,
  \<^verbatim>\<open>long_time\<close> 0.25) a press held for 0.22 is released before that threshold, yet
  \<^verbatim>\<open>_double_clock\<close> has run at 0.2 while \<^verbatim>\<open>_long_clock\<close> was scheduled and only set
  \<^verbatim>\<open>state\<close>; the release unschedules \<^verbatim>\<open>_long_clock\<close> and returns. Nothing is emitted,
  no timer is left to emit anything, and \<^verbatim>\<open>state\<close> stays \<^verbatim>\<open>down\<close>.
\<close>

theorem click_lost_between_timers:
  "map_sum id emitted
     (run button_env double_widget
        [Press left_touch, Elapse (1 / 5), Fire (double_clock double_widget),
         Elapse (1 / 50), Release left_touch]) = Inr [] \<and>
   map_sum id state
     (run button_env double_widget
        [Press left_touch, Elapse (1 / 5), Fire (double_clock double_widget),
         Elapse (1 / 50), Release left_touch]) = Inr ''down'' \<and>
   map_sum id idle
     (run button_env double_widget
        [Press left_touch, Elapse (1 / 5), Fire (double_clock double_widget),
         Elapse (1 / 50), Release left_touch]) = Inr True"
  by (simp add: eval_defs)

end
